theory Spec2Isabelle
  imports Main "HOL-Library.Word"
begin

section \<open>Types of the UCX library that the sources use\<close>

text \<open>
  The sources include \<^verbatim>\<open>ucp/api/ucp.h\<close>; UCX itself is an external library. Of its
  status enumeration the sources only compare values for equality, so it is a datatype:
  the codes the sources name, the neighbouring codes a reader may confuse them with, and
  \<open>UCS_ERR_OTHER\<close> for every other code.
\<close>

datatype ucs_status_t =
    UCS_OK
  | UCS_INPROGRESS
  | UCS_ERR_CANCELED
  | UCS_ERR_TIMED_OUT
  | UCS_ERR_NOT_CONNECTED
  | UCS_ERR_CONNECTION_RESET
  | UCS_ERR_ENDPOINT_TIMEOUT
  | UCS_ERR_OTHER int

text \<open>
  A \<^verbatim>\<open>ucs_status_ptr_t\<close> is either a pointer to a transport request
  (\<^verbatim>\<open>UCS_PTR_IS_PTR\<close>) or an encoded status (\<^verbatim>\<open>UCS_PTR_STATUS\<close>).
\<close>

datatype ucs_status_ptr_t = Ptr nat | Status ucs_status_t

datatype ucp_ep_close_mode = UCP_EP_CLOSE_MODE_FORCE | UCP_EP_CLOSE_MODE_FLUSH

datatype ucp_err_handling_mode = UCP_ERR_HANDLING_MODE_NONE | UCP_ERR_HANDLING_MODE_PEER

text \<open>
  The mask constants of UCX are distinct single bits and the sources only combine them
  with \<^verbatim>\<open>|\<close>, so a mask is the set of the constants or-ed into it; a zero mask is
  the empty set.
\<close>

datatype ucp_op_attr =
    UCP_OP_ATTR_FIELD_CALLBACK
  | UCP_OP_ATTR_FIELD_DATATYPE
  | UCP_OP_ATTR_FIELD_USER_DATA
  | UCP_OP_ATTR_FIELD_FLAGS

datatype ucp_stream_recv_flag = UCP_STREAM_RECV_FLAG_WAITALL

datatype ucp_ep_param_field =
    UCP_EP_PARAM_FIELD_FLAGS
  | UCP_EP_PARAM_FIELD_SOCK_ADDR
  | UCP_EP_PARAM_FIELD_CONN_REQUEST
  | UCP_EP_PARAM_FIELD_REMOTE_ADDRESS
  | UCP_EP_PARAM_FIELD_ERR_HANDLING_MODE
  | UCP_EP_PARAM_FIELD_ERR_HANDLER

datatype ucp_ep_params_flag = UCP_EP_PARAMS_FLAGS_CLIENT_SERVER | UCP_EP_PARAMS_FLAGS_NO_LOOPBACK

text \<open>The completion callbacks the sources hand to the transport, by name.\<close>

datatype callback_fn =
    stream_send_callback
  | stream_recv_callback
  | tag_send_callback
  | tag_recv_callback

text \<open>The union \<^verbatim>\<open>param.cb\<close>: which member was assigned.\<close>

datatype ucp_cb = Cb_unset | Cb_send callback_fn | Cb_recv callback_fn | Cb_recv_stream callback_fn

text \<open>
  \<^verbatim>\<open>ucp_request_param_t\<close>, with the members the sources initialise. Members a designated
  initialiser leaves out are zero: \<open>flags = {}\<close>, \<open>cb = Cb_unset\<close>. The datatype member is
  \<^verbatim>\<open>ucp_dt_make_contig(n)\<close>, kept as its element size \<open>n\<close>.
\<close>

record ucp_request_param_t =
  op_attr_mask :: "ucp_op_attr set"
  flags :: "ucp_stream_recv_flag set"
  dt_contig :: nat
  user_data :: nat
  cb :: ucp_cb

text \<open>
  \<^verbatim>\<open>ucp_ep_params_t\<close>. Pointers that may be null are options: \<open>None\<close> is
  \<^verbatim>\<open>nullptr\<close>.
\<close>

record ucp_ep_params_t =
  field_mask :: "ucp_ep_param_field set"
  ep_flags :: "ucp_ep_params_flag set"
  sockaddr :: "(string \<times> nat) option"
  conn_request :: "nat option"
  address :: "nat option"
  err_mode :: "ucp_err_handling_mode option"
  err_handler_set :: bool

section \<open>Observable actions\<close>

text \<open>
  Calls into the transport and the resolver, calls into functions of the repository
  whose bodies are not in the sources read here, log lines and user callbacks are
  recorded, in order, in a trace. What such a call returns is read from \<open>externals\<close>
  below. The query \<^verbatim>\<open>ucp_request_check_status\<close> changes nothing and is not recorded.
\<close>

datatype log_level = LOG_TRACE_REQ | LOG_DEBUG | LOG_ERROR

datatype log_msg =
    Err_cb_msg "nat option" ucs_status_t
  | Close_error_msg ucs_status_t
  | Request_msg string ucs_status_ptr_t

text \<open>The states of a Request, as section 4.2 of the specification names them.\<close>

datatype req_state = Created | Delayed | Submitted | Completed | Errored | Cancelled

datatype event =
    Gethostbyname string
  | Ucp_ep_create nat ucp_ep_params_t
  | Ucp_ep_close_nb nat ucp_ep_close_mode
  | Worker_progress
  | Ucp_request_free nat
  | Ucp_stream_send_nbx "nat option" nat nat ucp_request_param_t
  | Ucp_stream_recv_nbx "nat option" nat nat ucp_request_param_t
  | Ucp_tag_send_nbx "nat option" nat nat "64 word" ucp_request_param_t
  | Ucp_tag_recv_nbx "nat option" nat nat "64 word" "64 word" ucp_request_param_t
  | Request_wait "nat option" ucs_status_ptr_t nat string
  | Request_process "nat option" ucs_status_ptr_t nat string
  | Close_callback nat "nat option"
  | Cancel_all
  | Request_notified nat req_state
  | Log log_level log_msg

datatype error = UCXXError string | UCXXConnectionResetError string | Bad_alloc

text \<open>
  What the functions outside the sources return. A transport result may depend on
  everything that has happened so far, so it is a function of the trace at the moment of
  the call (the call itself included). \<open>assert_ucs_status\<close> is the repository's helper of
  \<^verbatim>\<open>ucxx/utils.h\<close>, whose body is not in the sources; it returns the exception it
  throws, if any.
\<close>

record externals =
  ucp_ep_create_ret :: "event list \<Rightarrow> ucs_status_t \<times> nat option"
  ucp_ep_close_nb_ret :: "event list \<Rightarrow> ucs_status_ptr_t"
  ucp_request_check_status :: "event list \<Rightarrow> nat \<Rightarrow> ucs_status_t"
  ucp_nbx_ret :: "event list \<Rightarrow> ucs_status_ptr_t"
  gethostbyname :: "string \<Rightarrow> string option"
  sockaddr_utils_set :: "string \<Rightarrow> nat \<Rightarrow> bool"
  assert_ucs_status :: "ucs_status_t \<Rightarrow> error option"
  ucs_status_string :: "ucs_status_t \<Rightarrow> string"
  show_hex :: "nat option \<Rightarrow> string"

section \<open>The data of the repository\<close>

text \<open>
  \<^verbatim>\<open>ucxx_request_t\<close> is declared in \<^verbatim>\<open>ucxx/typedefs.h\<close>; the members below are the
  ones \<^verbatim>\<open>stream_msg\<close> assigns. The member \<^verbatim>\<open>py_future\<close> exists only in a build with
  \<^verbatim>\<open>UCXX_ENABLE_PYTHON\<close> and is left out.
\<close>

record ucxx_request_t =
  callback :: "nat option"
  callback_data :: "nat option"

text \<open>\<^verbatim>\<open>delayed_notification_request_t\<close>, as \<^verbatim>\<open>stream_msg\<close> fills it.\<close>

record delayed_notification_request_t =
  d_worker :: "nat option"
  d_ep :: "nat option"
  d_send :: bool
  d_buffer :: nat
  d_length :: nat
  d_request :: nat

text \<open>\<^verbatim>\<open>NotificationRequest\<close>, as \<^verbatim>\<open>UCXXRequestTag::populateNotificationRequest\<close> reads it.\<close>

record NotificationRequest =
  n_worker :: "nat option"
  n_ep :: "nat option"
  n_send :: bool
  n_buffer :: nat
  n_length :: nat
  n_tag :: "64 word"
  n_request :: nat

text \<open>The function registered together with a delayed entry.\<close>

datatype populate_fn = populate_delayed_notification_stream_request_fn

text \<open>
  \<^verbatim>\<open>UCXXWorker\<close> (\<^verbatim>\<open>ucxx/worker.h\<close>, not in the sources): its transport handle and its
  DelayedNotificationQueue.
\<close>

record UCXXWorker =
  w_handle :: "nat option"
  delayed :: "(populate_fn \<times> delayed_notification_request_t) list"

record UCXXListener =
  l_handle :: "nat option"
  l_parent :: "UCXXWorker option"

datatype UCXXComponent = Worker UCXXWorker | Listener UCXXListener

record UCXXAddress =
  a_handle :: "nat option"
  a_length :: nat

text \<open>
  \<^verbatim>\<open>error_callback_data_t\<close>. Its members \<^verbatim>\<open>inflightRequests\<close> and \<^verbatim>\<open>worker\<close> are shared
  pointers to the registry of the endpoint and to the worker: they are the fields
  \<open>inflightRequests\<close> of the endpoint and \<open>worker\<close> of the runtime below, not copies.
\<close>

record error_callback_data_t =
  status :: ucs_status_t
  closeCallback :: "nat option"
  closeCallbackArg :: "nat option"

datatype weak_ptr = Weak nat

text \<open>
  \<^verbatim>\<open>UCXXEndpoint\<close>. The registry maps the address of a \<^verbatim>\<open>UCXXRequest\<close> to a weak
  pointer to it; it is kept as an association list in insertion order.
\<close>

record UCXXEndpoint =
  handle :: "nat option"
  endpoint_error_handling :: bool
  callbackData :: error_callback_data_t
  inflightRequests :: "(nat \<times> weak_ptr) list"

text \<open>
  Modelled from the spec: the class \<^verbatim>\<open>UCXXRequest\<close> is declared in \<^verbatim>\<open>ucxx/request.h\<close>,
  which is not in the sources. The specification (3, Request) gives a Request its
  current state; the object also holds the \<^verbatim>\<open>ucxx_request_t\<close> it wraps and is owned
  through \<^verbatim>\<open>std::shared_ptr\<close>: \<open>use_count\<close> is the number of owners, and the object is
  destroyed when the last owner lets go.
\<close>

record UCXXRequest =
  req_handle :: nat
  req_state :: req_state
  use_count :: nat

text \<open>
  What a free function reaches through a worker pointer: the worker, the
  \<^verbatim>\<open>ucxx_request_t\<close> objects made by \<^verbatim>\<open>std::make_shared\<close>, the allocator and the trace.
  The allocator hands out \<open>next_addr\<close> and moves on: an address stands for the identity
  of an object and is not given to a second one.
\<close>

record runtime =
  worker :: UCXXWorker
  ucxx_requests :: "nat \<Rightarrow> ucxx_request_t option"
  next_addr :: nat
  trace :: "event list"

text \<open>One endpoint on its worker, with the \<^verbatim>\<open>UCXXRequest\<close> objects made for it.\<close>

record sys =
  rt :: runtime
  endpoint :: UCXXEndpoint
  requests :: "nat \<Rightarrow> UCXXRequest option"

definition emit :: "event \<Rightarrow> runtime \<Rightarrow> runtime" where
  "emit e r = r\<lparr>trace := trace r @ [e]\<rparr>"

section \<open>The worker, as far as the sources call it\<close>

text \<open>
  Modelled from the spec: \<^verbatim>\<open>UCXXWorker::registerDelayedNotificationRequest\<close> is called by
  \<^verbatim>\<open>stream_msg\<close> and defined in \<^verbatim>\<open>ucxx/worker.h\<close>, which is not in the sources. The
  specification (4.1, \<^verbatim>\<open>registerDelayed(entry)\<close>) says: thread-safe enqueue into the
  DelayedNotificationQueue, callable from any thread; the queue is FIFO.
\<close>

definition registerDelayedNotificationRequest ::
  "populate_fn \<Rightarrow> delayed_notification_request_t \<Rightarrow> runtime \<Rightarrow> runtime" where
  "registerDelayedNotificationRequest f d r =
     r\<lparr>worker := (worker r)\<lparr>delayed := delayed (worker r) @ [(f, d)]\<rparr>\<rparr>"

fun terminal :: "req_state \<Rightarrow> bool" where
  "terminal Completed = True"
| "terminal Errored = True"
| "terminal Cancelled = True"
| "terminal _ = False"

text \<open>\<^verbatim>\<open>std::weak_ptr::lock\<close>: the object, unless it has been destroyed.\<close>

fun lock :: "sys \<Rightarrow> weak_ptr \<Rightarrow> UCXXRequest option" where
  "lock s (Weak a) = requests s a"

text \<open>
  Modelled from the spec: \<^verbatim>\<open>UCXXWorker::scheduleRequestCancel\<close> is called by \<^verbatim>\<open>_err_cb\<close>
  and defined in \<^verbatim>\<open>ucxx/worker.h\<close>, which is not in the sources. The specification (4.3)
  calls it \<^verbatim>\<open>cancelAll()\<close>: it iterates all weak entries still alive, and for each live
  Request, if not yet terminal, force-transitions it to Cancelled and invokes its user
  callback with a cancellation outcome; entries whose Request has already been destroyed
  are silently skipped. By 4.2 a terminal transition removes the Request from the
  registry of its endpoint.
\<close>

fun cancel_entry :: "nat \<times> weak_ptr \<Rightarrow> sys \<Rightarrow> sys" where
  "cancel_entry (k, Weak a) s =
     (case lock s (Weak a) of
        None \<Rightarrow> s
      | Some q \<Rightarrow>
          if terminal (req_state q) then s
          else s\<lparr>requests := (requests s)(a \<mapsto> q\<lparr>req_state := Cancelled\<rparr>),
                 endpoint := (endpoint s)
                   \<lparr>inflightRequests := filter (\<lambda>kv. fst kv \<noteq> a) (inflightRequests (endpoint s))\<rparr>,
                 rt := emit (Request_notified a Cancelled) (rt s)\<rparr>)"

definition scheduleRequestCancel :: "(nat \<times> weak_ptr) list \<Rightarrow> sys \<Rightarrow> sys" where
  "scheduleRequestCancel reg s = fold cancel_entry reg (s\<lparr>rt := emit Cancel_all (rt s)\<rparr>)"

section \<open>Stream transfers (\<^verbatim>\<open>stream_request\<close>, \<^verbatim>\<open>stream_msg\<close>)\<close>

definition stream_request ::
  "externals \<Rightarrow> nat option \<Rightarrow> bool \<Rightarrow> nat \<Rightarrow> nat \<Rightarrow> nat \<Rightarrow> runtime
     \<Rightarrow> ucs_status_ptr_t \<times> runtime" where
  "stream_request X ep send buffer len request r =
     (let param = \<lparr>op_attr_mask = {UCP_OP_ATTR_FIELD_CALLBACK} \<union> {UCP_OP_ATTR_FIELD_DATATYPE}
                                     \<union> {UCP_OP_ATTR_FIELD_USER_DATA},
                    flags = {}, dt_contig = 1, user_data = request, cb = Cb_unset\<rparr>
      in if send then
           let param = param\<lparr>cb := Cb_send stream_send_callback\<rparr>;
               r1 = emit (Ucp_stream_send_nbx ep buffer len param) r
           in (ucp_nbx_ret X (trace r1), r1)
         else
           let param = param\<lparr>op_attr_mask := op_attr_mask param \<union> {UCP_OP_ATTR_FIELD_FLAGS}\<rparr>;
               param = param\<lparr>flags := {UCP_STREAM_RECV_FLAG_WAITALL}\<rparr>;
               param = param\<lparr>cb := Cb_recv_stream stream_recv_callback\<rparr>;
               r1 = emit (Ucp_stream_recv_nbx ep buffer len param) r
           in (ucp_nbx_ret X (trace r1), r1))"

text \<open>
  \<^verbatim>\<open>request_wait\<close> (\<^verbatim>\<open>ucxx/transfer_common.h\<close>) is not in the sources: the call is
  recorded with its arguments.
\<close>

definition populate_delayed_notification_stream_request ::
  "externals \<Rightarrow> delayed_notification_request_t \<Rightarrow> runtime \<Rightarrow> runtime" where
  "populate_delayed_notification_stream_request X data r =
     (let operationName = (if d_send data then ''stream_send'' else ''stream_recv'');
          (st, r1) = stream_request X (d_ep data) (d_send data) (d_buffer data) (d_length data)
                       (d_request data) r;
          r2 = emit (Log LOG_TRACE_REQ (Request_msg operationName st)) r1
      in emit (Request_wait (d_worker data) st (d_request data) operationName) r2)"

definition stream_msg :: "nat option \<Rightarrow> bool \<Rightarrow> nat \<Rightarrow> nat \<Rightarrow> runtime \<Rightarrow> nat \<times> runtime" where
  "stream_msg ep send buffer len r =
     (let request = next_addr r;
          r1 = r\<lparr>ucxx_requests := (ucxx_requests r)(request \<mapsto> \<lparr>callback = None, callback_data = None\<rparr>),
                 next_addr := Suc request\<rparr>;
          delayed_notification_request =
            \<lparr>d_worker = w_handle (worker r1), d_ep = ep, d_send = send, d_buffer = buffer,
             d_length = len, d_request = request\<rparr>
      in (request,
          registerDelayedNotificationRequest populate_delayed_notification_stream_request_fn
            delayed_notification_request r1))"

section \<open>Tag transfers (\<^verbatim>\<open>UCXXRequestTag\<close>)\<close>

definition UCXXRequestTag_request ::
  "externals \<Rightarrow> nat option \<Rightarrow> nat option \<Rightarrow> bool \<Rightarrow> nat \<Rightarrow> nat \<Rightarrow> 64 word \<Rightarrow> nat \<Rightarrow> runtime
     \<Rightarrow> ucs_status_ptr_t \<times> runtime" where
  "UCXXRequestTag_request X wrk ep send buffer len tag request r =
     (let tag_mask = (- 1 :: 64 word);
          param = \<lparr>op_attr_mask = {UCP_OP_ATTR_FIELD_CALLBACK} \<union> {UCP_OP_ATTR_FIELD_DATATYPE}
                                     \<union> {UCP_OP_ATTR_FIELD_USER_DATA},
                    flags = {}, dt_contig = 1, user_data = request, cb = Cb_unset\<rparr>
      in if send then
           let param = param\<lparr>cb := Cb_send tag_send_callback\<rparr>;
               r1 = emit (Ucp_tag_send_nbx ep buffer len tag param) r
           in (ucp_nbx_ret X (trace r1), r1)
         else
           let param = param\<lparr>cb := Cb_recv tag_recv_callback\<rparr>;
               r1 = emit (Ucp_tag_recv_nbx wrk buffer len tag tag_mask param) r
           in (ucp_nbx_ret X (trace r1), r1))"

text \<open>
  \<^verbatim>\<open>UCXXRequest::process\<close> (\<^verbatim>\<open>ucxx/request.h\<close>) is not in the sources: the call is recorded
  with its arguments.
\<close>

definition populateNotificationRequest :: "externals \<Rightarrow> NotificationRequest \<Rightarrow> runtime \<Rightarrow> runtime" where
  "populateNotificationRequest X data r =
     (let operationName = (if n_send data then ''tag_send'' else ''tag_recv'');
          (st, r1) = UCXXRequestTag_request X (n_worker data) (n_ep data) (n_send data)
                       (n_buffer data) (n_length data) (n_tag data) (n_request data) r;
          r2 = emit (Log LOG_TRACE_REQ (Request_msg operationName st)) r1
      in emit (Request_process (n_worker data) st (n_request data) operationName) r2)"

section \<open>The endpoint (\<^verbatim>\<open>UCXXEndpoint\<close>)\<close>

text \<open>
  \<^verbatim>\<open>_err_cb\<close>, the error handler given to the transport. Its argument \<^verbatim>\<open>arg\<close> is the
  callback data of the endpoint. The close callback is user code: its invocation is
  recorded with its argument.
\<close>

definition err_cb :: "nat option \<Rightarrow> ucs_status_t \<Rightarrow> sys \<Rightarrow> sys" where
  "err_cb ep st s =
     (let s1 = s\<lparr>endpoint := (endpoint s)\<lparr>callbackData := (callbackData (endpoint s))\<lparr>status := st\<rparr>\<rparr>\<rparr>;
          s2 = scheduleRequestCancel (inflightRequests (endpoint s1)) s1;
          data = callbackData (endpoint s2);
          s3 = (case closeCallback data of
                  Some f \<Rightarrow>
                    s2\<lparr>rt := emit (Close_callback f (closeCallbackArg data)) (rt s2),
                       endpoint := (endpoint s2)
                         \<lparr>callbackData := data\<lparr>closeCallback := None, closeCallbackArg := None\<rparr>\<rparr>\<rparr>
                | None \<Rightarrow> s2)
      in if st = UCS_ERR_CONNECTION_RESET \<or> st = UCS_ERR_ENDPOINT_TIMEOUT
         then s3\<lparr>rt := emit (Log LOG_DEBUG (Err_cb_msg ep st)) (rt s3)\<rparr>
         else s3\<lparr>rt := emit (Log LOG_ERROR (Err_cb_msg ep st)) (rt s3)\<rparr>)"

definition getWorker :: "UCXXComponent \<Rightarrow> UCXXWorker option" where
  "getWorker worker_or_listener =
     (case worker_or_listener of Worker w \<Rightarrow> Some w | Listener l \<Rightarrow> l_parent l)"

text \<open>
  The private constructor. It returns the exception or the new endpoint, and the trace.
  The parent set by \<^verbatim>\<open>setParent\<close> is not a field of the record: in \<open>sys\<close> the worker
  that \<^verbatim>\<open>getWorker(_parent)\<close> finds is the worker of the runtime.
\<close>

definition UCXXEndpoint_ctor ::
  "externals \<Rightarrow> UCXXComponent \<Rightarrow> ucp_ep_params_t \<Rightarrow> bool \<Rightarrow> event list
     \<Rightarrow> (error + UCXXEndpoint) \<times> event list" where
  "UCXXEndpoint_ctor X worker_or_listener params eeh tr =
     (case getWorker worker_or_listener of
        None \<Rightarrow> (Inl (UCXXError ''Worker not initialized''), tr)
      | Some w \<Rightarrow>
          (case w_handle w of
             None \<Rightarrow> (Inl (UCXXError ''Worker not initialized''), tr)
           | Some wh \<Rightarrow>
               let data = \<lparr>status = UCS_OK, closeCallback = None, closeCallbackArg = None\<rparr>;
                   params = params\<lparr>err_mode := Some (if eeh then UCP_ERR_HANDLING_MODE_PEER
                                                       else UCP_ERR_HANDLING_MODE_NONE)\<rparr>;
                   params = params\<lparr>err_handler_set := True\<rparr>;
                   tr1 = tr @ [Ucp_ep_create wh params];
                   (st, h) = ucp_ep_create_ret X tr1
               in (case assert_ucs_status X st of
                     Some e \<Rightarrow> (Inl e, tr1)
                   | None \<Rightarrow>
                       (Inr \<lparr>handle = h, endpoint_error_handling = eeh, callbackData = data,
                             inflightRequests = []\<rparr>, tr1))))"

text \<open>\<^verbatim>\<open>new ucp_ep_params_t\<close>: no member has been assigned yet.\<close>

definition new_ucp_ep_params_t :: ucp_ep_params_t where
  "new_ucp_ep_params_t =
     \<lparr>field_mask = {}, ep_flags = {}, sockaddr = None, conn_request = None, address = None,
      err_mode = None, err_handler_set = False\<rparr>"

definition createEndpointFromHostname ::
  "externals \<Rightarrow> UCXXWorker option \<Rightarrow> string \<Rightarrow> nat \<Rightarrow> bool \<Rightarrow> event list
     \<Rightarrow> (error + UCXXEndpoint) \<times> event list" where
  "createEndpointFromHostname X wrk ip_address port eeh tr =
     (case wrk of
        None \<Rightarrow> (Inl (UCXXError ''Worker not initialized''), tr)
      | Some w \<Rightarrow>
          if w_handle w = None then (Inl (UCXXError ''Worker not initialized''), tr)
          else
            let params = new_ucp_ep_params_t;
                tr1 = tr @ [Gethostbyname ip_address]
            in (case gethostbyname X ip_address of
                  None \<Rightarrow> (Inl (UCXXError ''Invalid IP address or hostname''), tr1)
                | Some h_name \<Rightarrow>
                    let params = params\<lparr>field_mask :=
                                   {UCP_EP_PARAM_FIELD_FLAGS} \<union> {UCP_EP_PARAM_FIELD_SOCK_ADDR}
                                   \<union> {UCP_EP_PARAM_FIELD_ERR_HANDLING_MODE}
                                   \<union> {UCP_EP_PARAM_FIELD_ERR_HANDLER}\<rparr>;
                        params = params\<lparr>ep_flags := {UCP_EP_PARAMS_FLAGS_CLIENT_SERVER}\<rparr>
                    in if sockaddr_utils_set X h_name port then (Inl Bad_alloc, tr1)
                       else UCXXEndpoint_ctor X (Worker w)
                              (params\<lparr>sockaddr := Some (h_name, port)\<rparr>) eeh tr1))"

definition createEndpointFromConnRequest ::
  "externals \<Rightarrow> UCXXListener option \<Rightarrow> nat option \<Rightarrow> bool \<Rightarrow> event list
     \<Rightarrow> (error + UCXXEndpoint) \<times> event list" where
  "createEndpointFromConnRequest X listener conn eeh tr =
     (case listener of
        None \<Rightarrow> (Inl (UCXXError ''Worker not initialized''), tr)
      | Some l \<Rightarrow>
          if l_handle l = None then (Inl (UCXXError ''Worker not initialized''), tr)
          else
            let params = new_ucp_ep_params_t;
                params = params\<lparr>field_mask :=
                           {UCP_EP_PARAM_FIELD_FLAGS} \<union> {UCP_EP_PARAM_FIELD_CONN_REQUEST}
                           \<union> {UCP_EP_PARAM_FIELD_ERR_HANDLING_MODE}
                           \<union> {UCP_EP_PARAM_FIELD_ERR_HANDLER}\<rparr>;
                params = params\<lparr>ep_flags := {UCP_EP_PARAMS_FLAGS_NO_LOOPBACK}\<rparr>;
                params = params\<lparr>conn_request := conn\<rparr>
            in UCXXEndpoint_ctor X (Listener l) params eeh tr)"

definition createEndpointFromWorkerAddress ::
  "externals \<Rightarrow> UCXXWorker option \<Rightarrow> UCXXAddress option \<Rightarrow> bool \<Rightarrow> event list
     \<Rightarrow> (error + UCXXEndpoint) \<times> event list" where
  "createEndpointFromWorkerAddress X wrk addr eeh tr =
     (case wrk of
        None \<Rightarrow> (Inl (UCXXError ''Worker not initialized''), tr)
      | Some w \<Rightarrow>
          if w_handle w = None then (Inl (UCXXError ''Worker not initialized''), tr)
          else
            (case addr of
               None \<Rightarrow> (Inl (UCXXError ''Address not initialized''), tr)
             | Some a \<Rightarrow>
                 if a_handle a = None \<or> a_length a = 0
                 then (Inl (UCXXError ''Address not initialized''), tr)
                 else
                   let params = new_ucp_ep_params_t;
                       params = params\<lparr>field_mask :=
                                  {UCP_EP_PARAM_FIELD_REMOTE_ADDRESS}
                                  \<union> {UCP_EP_PARAM_FIELD_ERR_HANDLING_MODE}
                                  \<union> {UCP_EP_PARAM_FIELD_ERR_HANDLER}\<rparr>;
                       params = params\<lparr>address := a_handle a\<rparr>
                   in UCXXEndpoint_ctor X (Worker w) params eeh tr))"



definition isAlive :: "UCXXEndpoint \<Rightarrow> bool" where
  "isAlive e =
     (if \<not> endpoint_error_handling e then True else status (callbackData e) = UCS_OK)"

definition raiseOnError :: "externals \<Rightarrow> UCXXEndpoint \<Rightarrow> error + unit" where
  "raiseOnError X e =
     (let st = status (callbackData e)
      in if st = UCS_OK \<or> \<not> endpoint_error_handling e then Inr ()
         else
           let statusString = ucs_status_string X st;
               errorMsg = ''Endpoint '' @ show_hex X (handle e) @ '' error: '' @ statusString
           in if st = UCS_ERR_CONNECTION_RESET then Inl (UCXXConnectionResetError errorMsg)
              else Inl (UCXXError errorMsg))"

definition setCloseCallback :: "nat option \<Rightarrow> nat option \<Rightarrow> UCXXEndpoint \<Rightarrow> UCXXEndpoint" where
  "setCloseCallback f arg e =
     e\<lparr>callbackData := (callbackData e)\<lparr>closeCallback := f, closeCallbackArg := arg\<rparr>\<rparr>"

text \<open>
  Modelled from the spec: the factory \<^verbatim>\<open>ucxx::createRequest\<close> is defined in
  \<^verbatim>\<open>ucxx/request.h\<close>, which is not in the sources. The specification (3, Request) says a
  Request is created when an endpoint accepts a send or receive call; 4.2 names its
  first state Created. The shared pointer it returns is the only owner.
\<close>

definition ucxx_createRequest :: "nat \<Rightarrow> sys \<Rightarrow> nat \<times> sys" where
  "ucxx_createRequest request s =
     (let req = next_addr (rt s)
      in (req, s\<lparr>rt := (rt s)\<lparr>next_addr := Suc req\<rparr>,
                 requests := (requests s)
                   (req \<mapsto> \<lparr>req_handle = request, req_state = Created, use_count = 1\<rparr>)\<rparr>))"

text \<open>\<^verbatim>\<open>insert\<close> of a standard map: an existing key keeps its value.\<close>

definition map_insert :: "nat \<times> weak_ptr \<Rightarrow> (nat \<times> weak_ptr) list \<Rightarrow> (nat \<times> weak_ptr) list" where
  "map_insert kv m = (if map_of m (fst kv) \<noteq> None then m else m @ [kv])"

text \<open>
  \<^verbatim>\<open>UCXXEndpoint::createRequest\<close>. The weak pointer made from \<^verbatim>\<open>req\<close> is not an owner:
  \<open>use_count\<close> stays as the factory left it.
\<close>

definition createRequest :: "nat \<Rightarrow> sys \<Rightarrow> nat \<times> sys" where
  "createRequest request s =
     (let (req, s1) = ucxx_createRequest request s;
          weak_req = Weak req
      in (req, s1\<lparr>endpoint := (endpoint s1)
                  \<lparr>inflightRequests := map_insert (req, weak_req) (inflightRequests (endpoint s1))\<rparr>\<rparr>))"

definition stream_send :: "nat \<Rightarrow> nat \<Rightarrow> sys \<Rightarrow> nat \<times> sys" where
  "stream_send buffer len s =
     (let (request, r1) = stream_msg (handle (endpoint s)) True buffer len (rt s)
      in createRequest request (s\<lparr>rt := r1\<rparr>))"

definition stream_recv :: "nat \<Rightarrow> nat \<Rightarrow> sys \<Rightarrow> nat \<times> sys" where
  "stream_recv buffer len s =
     (let (request, r1) = stream_msg (handle (endpoint s)) False buffer len (rt s)
      in createRequest request (s\<lparr>rt := r1\<rparr>))"

text \<open>
  \<^verbatim>\<open>tag_msg\<close> (\<^verbatim>\<open>ucxx/transfer_tag.h\<close>) is not in the sources. It is a free function
  that is given the worker, the endpoint handle and the arguments of the call, so it is
  a parameter: any function of those and the runtime.
\<close>

type_synonym tag_msg_t =
  "nat option \<Rightarrow> bool \<Rightarrow> nat \<Rightarrow> nat \<Rightarrow> 64 word \<Rightarrow> nat option \<Rightarrow> nat option \<Rightarrow> runtime
     \<Rightarrow> nat \<times> runtime"

definition tag_send ::
  "tag_msg_t \<Rightarrow> nat \<Rightarrow> nat \<Rightarrow> 64 word \<Rightarrow> nat option \<Rightarrow> nat option \<Rightarrow> sys \<Rightarrow> nat \<times> sys" where
  "tag_send tag_msg buffer len tag callbackFunction callbackData_arg s =
     (let (request, r1) = tag_msg (handle (endpoint s)) True buffer len tag callbackFunction
                            callbackData_arg (rt s)
      in createRequest request (s\<lparr>rt := r1\<rparr>))"

definition tag_recv ::
  "tag_msg_t \<Rightarrow> nat \<Rightarrow> nat \<Rightarrow> 64 word \<Rightarrow> nat option \<Rightarrow> nat option \<Rightarrow> sys \<Rightarrow> nat \<times> sys" where
  "tag_recv tag_msg buffer len tag callbackFunction callbackData_arg s =
     (let (request, r1) = tag_msg (handle (endpoint s)) False buffer len tag callbackFunction
                            callbackData_arg (rt s)
      in createRequest request (s\<lparr>rt := r1\<rparr>))"

section \<open>Reading the trace\<close>

text \<open>The lines \<^verbatim>\<open>_err_cb\<close> itself logs about the connection error.\<close>

fun is_err_cb_log :: "event \<Rightarrow> bool" where
  "is_err_cb_log (Log l (Err_cb_msg ep st)) = True"
| "is_err_cb_log _ = False"

fun is_close_callback :: "event \<Rightarrow> bool" where
  "is_close_callback (Close_callback f a) = True"
| "is_close_callback _ = False"

fun is_cancel_all :: "event \<Rightarrow> bool" where
  "is_cancel_all Cancel_all = True"
| "is_cancel_all _ = False"


text \<open>The calls that submit a send or a receive to the transport.\<close>

fun is_submit :: "event \<Rightarrow> bool" where
  "is_submit (Ucp_stream_send_nbx ep b l p) = True"
| "is_submit (Ucp_stream_recv_nbx ep b l p) = True"
| "is_submit (Ucp_tag_send_nbx ep b l t p) = True"
| "is_submit (Ucp_tag_recv_nbx w b l t m p) = True"
| "is_submit _ = False"

section \<open>Conditions on the arguments of the factories\<close>

text \<open>
  The negations of the tests \<^verbatim>\<open>worker == nullptr || worker->get_handle() == nullptr\<close> and
  \<^verbatim>\<open>address == nullptr || address->getHandle() == nullptr || address->getLength() == 0\<close>
  of the factories.
\<close>

definition worker_initialized :: "UCXXWorker option \<Rightarrow> bool" where
  "worker_initialized wrk = (case wrk of None \<Rightarrow> False | Some w \<Rightarrow> w_handle w \<noteq> None)"

definition address_initialized :: "UCXXAddress option \<Rightarrow> bool" where
  "address_initialized addr =
     (case addr of None \<Rightarrow> False | Some a \<Rightarrow> a_handle a \<noteq> None \<and> a_length a \<noteq> 0)"

text \<open>The negation of \<^verbatim>\<open>listener == nullptr || listener->get_handle() == nullptr\<close>.\<close>

definition listener_initialized :: "UCXXListener option \<Rightarrow> bool" where
  "listener_initialized listener =
     (case listener of None \<Rightarrow> False | Some l \<Rightarrow> l_handle l \<noteq> None)"

section \<open>Concrete values for the examples\<close>

text \<open>
  A transport whose close request completes at the second progress call, a worker with a
  handle and an empty queue, and an endpoint with two requests in its registry: one
  submitted, one completed.
\<close>

definition X0 :: externals where
  "X0 = \<lparr>ucp_ep_create_ret = (\<lambda>tr. (UCS_OK, Some 7)),
         ucp_ep_close_nb_ret = (\<lambda>tr. Ptr 9),
         ucp_request_check_status =
           (\<lambda>tr p. if length (filter (\<lambda>e. e = Worker_progress) tr) < 2 then UCS_INPROGRESS
                   else UCS_OK),
         ucp_nbx_ret = (\<lambda>tr. Ptr 11),
         gethostbyname = (\<lambda>n. Some n),
         sockaddr_utils_set = (\<lambda>n p. False),
         assert_ucs_status = (\<lambda>st. if st = UCS_OK then None else Some (UCXXError ''status'')),
         ucs_status_string = (\<lambda>st. ''status''),
         show_hex = (\<lambda>h. ''0x'')\<rparr>"


definition rt0 :: runtime where
  "rt0 = \<lparr>worker = \<lparr>w_handle = Some 1, delayed = []\<rparr>, ucxx_requests = (\<lambda>_. None),
          next_addr = 100, trace = []\<rparr>"

definition sys0 :: "bool \<Rightarrow> ucs_status_t \<Rightarrow> sys" where
  "sys0 eeh st =
     \<lparr>rt = rt0,
      endpoint = \<lparr>handle = Some 7, endpoint_error_handling = eeh,
                  callbackData = \<lparr>status = st, closeCallback = Some 5, closeCallbackArg = Some 6\<rparr>,
                  inflightRequests = [(50, Weak 50), (51, Weak 51)]\<rparr>,
      requests = (\<lambda>a. if a = 50 then Some \<lparr>req_handle = 40, req_state = Submitted, use_count = 1\<rparr>
                       else if a = 51 then Some \<lparr>req_handle = 41, req_state = Completed, use_count = 1\<rparr>
                       else None)\<rparr>"

definition tag_msg0 :: tag_msg_t where
  "tag_msg0 ep sd b l t f d r = stream_msg ep sd b l r"

section \<open>The life of the requests of an endpoint\<close>

text \<open>
  An owner of a \<^verbatim>\<open>std::shared_ptr\<close> lets go: the object is destroyed with its last
  owner. Weak pointers to it then fail to \<open>lock\<close>.
\<close>

definition shared_ptr_release :: "nat \<Rightarrow> sys \<Rightarrow> sys" where
  "shared_ptr_release a s =
     (case requests s a of
        None \<Rightarrow> s
      | Some q \<Rightarrow>
          if use_count q \<le> 1 then s\<lparr>requests := (requests s)(a := None)\<rparr>
          else s\<lparr>requests := (requests s)(a \<mapsto> q\<lparr>use_count := use_count q - 1\<rparr>)\<rparr>)"

text \<open>
  What can happen to an endpoint between its construction and its destruction: the four
  transfer calls, \<^verbatim>\<open>setCloseCallback\<close>, the error callback, and a caller letting go of a
  request.
\<close>

datatype op =
    Stream_send nat nat
  | Stream_recv nat nat
  | Tag_send nat nat "64 word" "nat option" "nat option"
  | Tag_recv nat nat "64 word" "nat option" "nat option"
  | Set_close_callback "nat option" "nat option"
  | Err_cb "nat option" ucs_status_t
  | Release nat

fun step :: "tag_msg_t \<Rightarrow> op \<Rightarrow> sys \<Rightarrow> sys" where
  "step tm (Stream_send b l) s = snd (stream_send b l s)"
| "step tm (Stream_recv b l) s = snd (stream_recv b l s)"
| "step tm (Tag_send b l t f d) s = snd (tag_send tm b l t f d s)"
| "step tm (Tag_recv b l t f d) s = snd (tag_recv tm b l t f d s)"
| "step tm (Set_close_callback f a) s = s\<lparr>endpoint := setCloseCallback f a (endpoint s)\<rparr>"
| "step tm (Err_cb ep st) s = err_cb ep st s"
| "step tm (Release a) s = shared_ptr_release a s"

text \<open>
  The one thing asked of \<^verbatim>\<open>tag_msg\<close>: it does not hand the allocator back to an
  address that is already in use.
\<close>

definition allocates_fresh :: "tag_msg_t \<Rightarrow> bool" where
  "allocates_fresh tm =
     (\<forall>ep sd b l t f d r. next_addr r \<le> next_addr (snd (tm ep sd b l t f d r)))"

text \<open>
  The registry is in order when its keys are addresses that have been allocated, and
  every request that is alive and not terminal is found under its own address.
\<close>

definition registry_ok :: "sys \<Rightarrow> bool" where
  "registry_ok s =
     ((\<forall>kv \<in> set (inflightRequests (endpoint s)). fst kv < next_addr (rt s))
      \<and> (\<forall>a q. requests s a = Some q \<and> \<not> terminal (req_state q) \<longrightarrow>
                 map_of (inflightRequests (endpoint s)) a = Some (Weak a)))"

text \<open>
  What it is for a call to have registered the request it returns: the registry holds a
  weak pointer to the request under its address, through which it can be locked; the
  returned shared pointer is the only owner and the request is not terminal; and once
  that owner has let go, the weak pointer locks nothing.
\<close>

definition registered :: "nat \<times> sys \<Rightarrow> bool" where
  "registered rs =
     (map_of (inflightRequests (endpoint (snd rs))) (fst rs) = Some (Weak (fst rs))
      \<and> (\<exists>q. lock (snd rs) (Weak (fst rs)) = Some q \<and> use_count q = 1 \<and> \<not> terminal (req_state q))
      \<and> lock (shared_ptr_release (fst rs) (snd rs)) (Weak (fst rs)) = None)"

text \<open>The same system with another status recorded in the callback data.\<close>

definition set_status :: "ucs_status_t \<Rightarrow> sys \<Rightarrow> sys" where
  "set_status st s =
     s\<lparr>endpoint := (endpoint s)\<lparr>callbackData := (callbackData (endpoint s))\<lparr>status := st\<rparr>\<rparr>\<rparr>"

section \<open>What the cancellation leaves alone\<close>


lemma cancel_entry_rt:
  "worker (rt (cancel_entry e s)) = worker (rt s)"
  "next_addr (rt (cancel_entry e s)) = next_addr (rt s)"
  "ucxx_requests (rt (cancel_entry e s)) = ucxx_requests (rt s)"
  by (cases e; cases "snd e"; simp add: emit_def split: option.splits)+

lemma cancel_entry_endpoint:
  "handle (endpoint (cancel_entry e s)) = handle (endpoint s)"
  "endpoint_error_handling (endpoint (cancel_entry e s)) = endpoint_error_handling (endpoint s)"
  "callbackData (endpoint (cancel_entry e s)) = callbackData (endpoint s)"
  by (cases e; cases "snd e"; simp split: option.splits)+

lemma cancel_entry_trace:
  "(\<And>a st. \<not> P (Request_notified a st)) \<Longrightarrow>
     filter P (trace (rt (cancel_entry e s))) = filter P (trace (rt s))"
  by (cases e; cases "snd e"; simp add: emit_def split: option.splits)

lemma fold_cancel_entry_endpoint:
  "handle (endpoint (fold cancel_entry reg s)) = handle (endpoint s)"
  "endpoint_error_handling (endpoint (fold cancel_entry reg s)) = endpoint_error_handling (endpoint s)"
  "callbackData (endpoint (fold cancel_entry reg s)) = callbackData (endpoint s)"
  by (induction reg arbitrary: s; simp add: cancel_entry_endpoint)+

lemma fold_cancel_entry_rt:
  "worker (rt (fold cancel_entry reg s)) = worker (rt s)"
  "next_addr (rt (fold cancel_entry reg s)) = next_addr (rt s)"
  "ucxx_requests (rt (fold cancel_entry reg s)) = ucxx_requests (rt s)"
  by (induction reg arbitrary: s; simp add: cancel_entry_rt)+

lemma fold_cancel_entry_trace:
  "(\<And>a st. \<not> P (Request_notified a st)) \<Longrightarrow>
     filter P (trace (rt (fold cancel_entry reg s))) = filter P (trace (rt s))"
  by (induction reg arbitrary: s) (simp_all add: cancel_entry_trace)

lemma scheduleRequestCancel_endpoint:
  "handle (endpoint (scheduleRequestCancel reg s)) = handle (endpoint s)"
  "endpoint_error_handling (endpoint (scheduleRequestCancel reg s)) = endpoint_error_handling (endpoint s)"
  "callbackData (endpoint (scheduleRequestCancel reg s)) = callbackData (endpoint s)"
  by (simp_all add: scheduleRequestCancel_def fold_cancel_entry_endpoint)

lemma scheduleRequestCancel_trace:
  "(\<And>a st. \<not> P (Request_notified a st)) \<Longrightarrow>
     filter P (trace (rt (scheduleRequestCancel reg s))) =
       filter P (trace (rt s)) @ (if P Cancel_all then [Cancel_all] else [])"
  by (simp add: scheduleRequestCancel_def fold_cancel_entry_trace emit_def)

lemma err_cb_endpoint:
  "handle (endpoint (err_cb ep st s)) = handle (endpoint s)"
  "endpoint_error_handling (endpoint (err_cb ep st s)) = endpoint_error_handling (endpoint s)"
  "status (callbackData (endpoint (err_cb ep st s))) = st"
  "closeCallback (callbackData (endpoint (err_cb ep st s))) = None"
  by (simp_all add: err_cb_def Let_def scheduleRequestCancel_endpoint split: option.splits)

lemma err_cb_close_events:
  "filter is_close_callback (trace (rt (err_cb ep st s))) =
     filter is_close_callback (trace (rt s)) @
       (case closeCallback (callbackData (endpoint s)) of
          Some f \<Rightarrow> [Close_callback f (closeCallbackArg (callbackData (endpoint s)))]
        | None \<Rightarrow> [])"
  by (simp add: err_cb_def Let_def scheduleRequestCancel_trace scheduleRequestCancel_endpoint
        emit_def split: option.splits)

lemma err_cb_clears_arg:
  "closeCallback (callbackData (endpoint s)) = Some f \<Longrightarrow>
     closeCallbackArg (callbackData (endpoint (err_cb ep st s))) = None"
  by (simp add: err_cb_def Let_def scheduleRequestCancel_endpoint split: option.splits)

lemma fold_err_cb_no_close:
  "closeCallback (callbackData (endpoint s)) = None \<Longrightarrow>
     filter is_close_callback (trace (rt (fold (\<lambda>c. err_cb (fst c) (snd c)) calls s))) =
       filter is_close_callback (trace (rt s))"
proof (induction calls arbitrary: s)
  case Nil
  then show ?case by simp
next
  case (Cons c calls)
  have "closeCallback (callbackData (endpoint (err_cb (fst c) (snd c) s))) = None"
    by (rule err_cb_endpoint(4))
  from Cons.IH[OF this] Cons.prems show ?case
    by (simp add: err_cb_close_events)
qed

lemma cancel_entry_requests:
  "requests s a = Some q \<Longrightarrow>
     \<exists>q'. requests (cancel_entry (k, Weak b) s) a = Some q' \<and>
          req_state q' = (if b = a \<and> \<not> terminal (req_state q) then Cancelled else req_state q)"
  by (auto split: option.splits)

lemma fold_cancel_entry_requests:
  "requests s a = Some q \<Longrightarrow>
     \<exists>q'. requests (fold cancel_entry reg s) a = Some q' \<and>
          req_state q' =
            (if Weak a \<in> snd ` set reg \<and> \<not> terminal (req_state q) then Cancelled
             else req_state q)"
proof (induction reg arbitrary: s q)
  case Nil
  then show ?case by simp
next
  case (Cons e reg)
  obtain k b where e: "e = (k, Weak b)" by (cases e; cases "snd e"; simp)
  from cancel_entry_requests[OF Cons.prems, of k b] obtain q1 where
    q1: "requests (cancel_entry e s) a = Some q1"
        "req_state q1 = (if b = a \<and> \<not> terminal (req_state q) then Cancelled else req_state q)"
    unfolding e by blast
  from Cons.IH[OF q1(1)] obtain q' where
    q': "requests (fold cancel_entry reg (cancel_entry e s)) a = Some q'"
        "req_state q' =
           (if Weak a \<in> snd ` set reg \<and> \<not> terminal (req_state q1) then Cancelled
            else req_state q1)"
    by blast
  show ?case
    using q' q1(2) e by (auto simp: image_iff)
qed


lemma cancel_entry_requests_none:
  "requests s a = None \<Longrightarrow> requests (cancel_entry e s) a = None"
  by (cases e; cases "snd e") (auto split: option.splits)

lemma fold_cancel_entry_requests_none:
  "requests s a = None \<Longrightarrow> requests (fold cancel_entry reg s) a = None"
  by (induction reg arbitrary: s) (simp_all add: cancel_entry_requests_none)

lemma err_cb_requests:
  "requests (err_cb ep st s) =
     requests (fold cancel_entry (inflightRequests (endpoint s))
                 ((set_status st s)\<lparr>rt := emit Cancel_all (rt s)\<rparr>))"
  by (simp add: err_cb_def Let_def scheduleRequestCancel_def set_status_def split: option.splits)

section \<open>The registry invariant\<close>


lemma map_of_filter_key:
  "map_of (filter (\<lambda>kv. fst kv \<noteq> a) m) b = (if b = a then None else map_of m b)"
  by (induction m) auto

lemma registry_ok_cancel_entry:
  assumes "registry_ok s"
  shows "registry_ok (cancel_entry e s)"
proof -
  obtain k b where e: "e = (k, Weak b)" by (cases e; cases "snd e"; simp)
  show ?thesis
    using assms unfolding e registry_ok_def
    by (auto simp: map_of_filter_key emit_def split: option.splits)
qed

lemma registry_ok_fold_cancel_entry:
  "registry_ok s \<Longrightarrow> registry_ok (fold cancel_entry reg s)"
  by (induction reg arbitrary: s) (simp_all add: registry_ok_cancel_entry)

lemma registry_ok_frame:
  "registry_ok s \<Longrightarrow> inflightRequests (endpoint s') = inflightRequests (endpoint s) \<Longrightarrow>
   requests s' = requests s \<Longrightarrow> next_addr (rt s) \<le> next_addr (rt s') \<Longrightarrow> registry_ok s'"
  unfolding registry_ok_def by fastforce

lemma registry_ok_err_cb:
  assumes "registry_ok s"
  shows "registry_ok (err_cb ep st s)"
proof -
  define s1 where "s1 = s\<lparr>endpoint := (endpoint s)\<lparr>callbackData := (callbackData (endpoint s))\<lparr>status := st\<rparr>\<rparr>\<rparr>"
  define s0 where "s0 = s1\<lparr>rt := emit Cancel_all (rt s1)\<rparr>"
  define s2 where "s2 = fold cancel_entry (inflightRequests (endpoint s1)) s0"
  have "registry_ok s0"
    by (rule registry_ok_frame[OF assms]) (simp_all add: s0_def s1_def emit_def)
  then have ok2: "registry_ok s2"
    unfolding s2_def by (rule registry_ok_fold_cancel_entry)
  have "inflightRequests (endpoint (err_cb ep st s)) = inflightRequests (endpoint s2)"
       "requests (err_cb ep st s) = requests s2"
       "next_addr (rt s2) \<le> next_addr (rt (err_cb ep st s))"
    by (simp_all add: err_cb_def Let_def scheduleRequestCancel_def s2_def s0_def s1_def emit_def
          split: option.splits)
  with ok2 show ?thesis by (rule registry_ok_frame)
qed

lemma createRequest_fst: "fst (createRequest request s) = next_addr (rt s)"
  by (simp add: createRequest_def ucxx_createRequest_def Let_def)

lemma registry_fresh_key:
  "\<forall>kv \<in> set m. fst kv < (n::nat) \<Longrightarrow> map_of m n = None"
  by (induction m) auto

lemma createRequest_effect:
  assumes "\<forall>kv \<in> set (inflightRequests (endpoint s)). fst kv < next_addr (rt s)"
  shows "inflightRequests (endpoint (snd (createRequest request s))) =
           inflightRequests (endpoint s) @ [(next_addr (rt s), Weak (next_addr (rt s)))]"
    and "requests (snd (createRequest request s)) =
           (requests s)(next_addr (rt s) \<mapsto> \<lparr>req_handle = request, req_state = Created, use_count = 1\<rparr>)"
    and "next_addr (rt (snd (createRequest request s))) = Suc (next_addr (rt s))"
  using registry_fresh_key[OF assms]
  by (simp_all add: createRequest_def ucxx_createRequest_def Let_def map_insert_def)

lemma registry_ok_createRequest:
  assumes "registry_ok s"
  shows "registry_ok (snd (createRequest request s))"
proof -
  from assms have fresh: "\<forall>kv \<in> set (inflightRequests (endpoint s)). fst kv < next_addr (rt s)"
    by (simp add: registry_ok_def)
  have none: "map_of (inflightRequests (endpoint s)) (next_addr (rt s)) = None"
    by (rule registry_fresh_key[OF fresh])
  show ?thesis
    using assms none unfolding registry_ok_def createRequest_effect[OF fresh]
    by (auto simp: less_Suc_eq map_add_def split: option.splits)
qed

lemma stream_msg_next_addr: "next_addr (snd (stream_msg ep sd b l r)) = Suc (next_addr r)"
  by (simp add: stream_msg_def registerDelayedNotificationRequest_def Let_def)

lemma registry_ok_rt:
  "registry_ok s \<Longrightarrow> next_addr (rt s) \<le> next_addr r \<Longrightarrow> registry_ok (s\<lparr>rt := r\<rparr>)"
  by (erule registry_ok_frame) simp_all

lemma registry_ok_step:
  assumes "registry_ok s" "allocates_fresh tm"
  shows "registry_ok (step tm o' s)"
proof (cases o')
  case (Stream_send b l)
  have "registry_ok (s\<lparr>rt := snd (stream_msg (handle (endpoint s)) True b l (rt s))\<rparr>)"
    by (rule registry_ok_rt[OF assms(1)]) (simp add: stream_msg_next_addr)
  then show ?thesis
    by (simp add: Stream_send stream_send_def split_beta registry_ok_createRequest)
next
  case (Stream_recv b l)
  have "registry_ok (s\<lparr>rt := snd (stream_msg (handle (endpoint s)) False b l (rt s))\<rparr>)"
    by (rule registry_ok_rt[OF assms(1)]) (simp add: stream_msg_next_addr)
  then show ?thesis
    by (simp add: Stream_recv stream_recv_def split_beta registry_ok_createRequest)
next
  case (Tag_send b l t f d)
  have "registry_ok (s\<lparr>rt := snd (tm (handle (endpoint s)) True b l t f d (rt s))\<rparr>)"
    by (rule registry_ok_rt[OF assms(1)]) (use assms(2) in \<open>simp add: allocates_fresh_def\<close>)
  then show ?thesis
    by (simp add: Tag_send tag_send_def split_beta registry_ok_createRequest)
next
  case (Tag_recv b l t f d)
  have "registry_ok (s\<lparr>rt := snd (tm (handle (endpoint s)) False b l t f d (rt s))\<rparr>)"
    by (rule registry_ok_rt[OF assms(1)]) (use assms(2) in \<open>simp add: allocates_fresh_def\<close>)
  then show ?thesis
    by (simp add: Tag_recv tag_recv_def split_beta registry_ok_createRequest)
next
  case (Set_close_callback f a)
  show ?thesis
    unfolding Set_close_callback step.simps
    by (rule registry_ok_frame[OF assms(1)]) (simp_all add: setCloseCallback_def)
next
  case (Err_cb ep st)
  then show ?thesis by (simp add: registry_ok_err_cb assms(1))
next
  case (Release a)
  show ?thesis
    using assms(1) unfolding Release step.simps registry_ok_def shared_ptr_release_def
    by (auto split: option.splits if_splits)
qed

lemma registry_ok_ctor:
  "UCXXEndpoint_ctor X c params eeh tr = (Inr e, tr') \<Longrightarrow>
     registry_ok \<lparr>rt = r, endpoint = e, requests = (\<lambda>_. None)\<rparr>"
  by (auto simp: UCXXEndpoint_ctor_def registry_ok_def Let_def split: option.splits prod.splits)

lemma registry_ok_run:
  "registry_ok s \<Longrightarrow> allocates_fresh tm \<Longrightarrow> registry_ok (fold (step tm) ops s)"
  by (induction ops arbitrary: s) (simp_all add: registry_ok_step)


lemma createRequest_registered:
  assumes "registry_ok s"
  shows "registered (createRequest request s)"
proof -
  from assms have fresh: "\<forall>kv \<in> set (inflightRequests (endpoint s)). fst kv < next_addr (rt s)"
    by (simp add: registry_ok_def)
  have none: "map_of (inflightRequests (endpoint s)) (next_addr (rt s)) = None"
    by (rule registry_fresh_key[OF fresh])
  show ?thesis
    using none
    by (simp add: registered_def shared_ptr_release_def createRequest_effect[OF fresh]
          createRequest_fst map_add_def)
qed

lemma transfer_registered:
  assumes "registry_ok s" and "allocates_fresh tm"
  shows "registered (stream_send b l s)" and "registered (stream_recv b l s)"
    and "registered (tag_send tm b l t f d s)" and "registered (tag_recv tm b l t f d s)"
proof -
  have 1: "registry_ok (s\<lparr>rt := snd (stream_msg (handle (endpoint s)) sd b l (rt s))\<rparr>)" for sd
    by (rule registry_ok_rt[OF assms(1)]) (simp add: stream_msg_next_addr)
  have 2: "registry_ok (s\<lparr>rt := snd (tm (handle (endpoint s)) sd b l t f d (rt s))\<rparr>)" for sd
    by (rule registry_ok_rt[OF assms(1)]) (use assms(2) in \<open>simp add: allocates_fresh_def\<close>)
  show "registered (stream_send b l s)"
    by (simp add: stream_send_def split_beta createRequest_registered[OF 1])
  show "registered (stream_recv b l s)"
    by (simp add: stream_recv_def split_beta createRequest_registered[OF 1])
  show "registered (tag_send tm b l t f d s)"
    by (simp add: tag_send_def split_beta createRequest_registered[OF 2])
  show "registered (tag_recv tm b l t f d s)"
    by (simp add: tag_recv_def split_beta createRequest_registered[OF 2])
qed

section \<open>The loop of the destructor\<close>







section \<open>The transfer calls and the status of the endpoint\<close>


lemma createRequest_set_status:
  "createRequest request (set_status st s) =
     (fst (createRequest request s), set_status st (snd (createRequest request s)))"
  by (simp add: createRequest_def ucxx_createRequest_def Let_def set_status_def)

lemma set_status_rt: "(set_status st s)\<lparr>rt := r\<rparr> = set_status st (s\<lparr>rt := r\<rparr>)"
  "rt (set_status st s) = rt s" "handle (endpoint (set_status st s)) = handle (endpoint s)"
  by (simp_all add: set_status_def)

lemma ops_ignore_status:
  "stream_send b l (set_status st s) =
     (fst (stream_send b l s), set_status st (snd (stream_send b l s)))"
  "stream_recv b l (set_status st s) =
     (fst (stream_recv b l s), set_status st (snd (stream_recv b l s)))"
  "tag_send tm b l t f d (set_status st s) =
     (fst (tag_send tm b l t f d s), set_status st (snd (tag_send tm b l t f d s)))"
  "tag_recv tm b l t f d (set_status st s) =
     (fst (tag_recv tm b l t f d s), set_status st (snd (tag_recv tm b l t f d s)))"
  by (simp_all add: stream_send_def stream_recv_def tag_send_def tag_recv_def split_beta
        set_status_rt createRequest_set_status)

lemma stream_ops_queue:
  "delayed (worker (rt (snd (stream_send b l s)))) =
     delayed (worker (rt s)) @
       [(populate_delayed_notification_stream_request_fn,
         \<lparr>d_worker = w_handle (worker (rt s)), d_ep = handle (endpoint s), d_send = True,
          d_buffer = b, d_length = l, d_request = next_addr (rt s)\<rparr>)]"
  "delayed (worker (rt (snd (stream_recv b l s)))) =
     delayed (worker (rt s)) @
       [(populate_delayed_notification_stream_request_fn,
         \<lparr>d_worker = w_handle (worker (rt s)), d_ep = handle (endpoint s), d_send = False,
          d_buffer = b, d_length = l, d_request = next_addr (rt s)\<rparr>)]"
  by (simp_all add: stream_send_def stream_recv_def split_beta createRequest_def
        ucxx_createRequest_def Let_def stream_msg_def registerDelayedNotificationRequest_def)

section \<open>The claims\<close>

text \<open>
  Claim C1, as amended. The claim says that on an endpoint with error handling enabled
  whose status has become non-ok every later \<^verbatim>\<open>stream_send\<close>, \<^verbatim>\<open>stream_recv\<close>,
  \<^verbatim>\<open>tag_send\<close> or \<^verbatim>\<open>tag_recv\<close> fails at once and never reaches the transport. The
  four methods never read the status. What holds: on such an endpoint \<^verbatim>\<open>isAlive()\<close> is
  false and \<^verbatim>\<open>raiseOnError()\<close> throws (the connection-reset exception for
  \<^verbatim>\<open>UCS_ERR_CONNECTION_RESET\<close>, the general one otherwise); each of the four methods
  does exactly what it does on the same endpoint with status \<^verbatim>\<open>UCS_OK\<close>, whatever
  \<^verbatim>\<open>tag_msg\<close> is; and the two stream methods add one entry to the worker's queue.
\<close>

theorem failed_endpoint_raises_ops_proceed:
  assumes "endpoint_error_handling (endpoint s)" and "status (callbackData (endpoint s)) \<noteq> UCS_OK"
  shows "\<not> isAlive (endpoint s)
       \<and> raiseOnError X (endpoint s) =
           Inl ((if status (callbackData (endpoint s)) = UCS_ERR_CONNECTION_RESET
                 then UCXXConnectionResetError else UCXXError)
                (''Endpoint '' @ show_hex X (handle (endpoint s)) @ '' error: ''
                   @ ucs_status_string X (status (callbackData (endpoint s)))))
       \<and> stream_send b l s =
           (fst (stream_send b l (set_status UCS_OK s)),
            set_status (status (callbackData (endpoint s))) (snd (stream_send b l (set_status UCS_OK s))))
       \<and> stream_recv b l s =
           (fst (stream_recv b l (set_status UCS_OK s)),
            set_status (status (callbackData (endpoint s))) (snd (stream_recv b l (set_status UCS_OK s))))
       \<and> tag_send tm b l t f d s =
           (fst (tag_send tm b l t f d (set_status UCS_OK s)),
            set_status (status (callbackData (endpoint s))) (snd (tag_send tm b l t f d (set_status UCS_OK s))))
       \<and> tag_recv tm b l t f d s =
           (fst (tag_recv tm b l t f d (set_status UCS_OK s)),
            set_status (status (callbackData (endpoint s))) (snd (tag_recv tm b l t f d (set_status UCS_OK s))))
       \<and> length (delayed (worker (rt (snd (stream_send b l s))))) = Suc (length (delayed (worker (rt s))))
       \<and> length (delayed (worker (rt (snd (stream_recv b l s))))) = Suc (length (delayed (worker (rt s))))"
proof -
  have id: "set_status (status (callbackData (endpoint s))) s = s"
           "\<And>st u. set_status st (set_status u s) = set_status st s"
    by (simp_all add: set_status_def)
  have a: "\<not> isAlive (endpoint s)" using assms by (simp add: isAlive_def)
  have b: "raiseOnError X (endpoint s) =
           Inl ((if status (callbackData (endpoint s)) = UCS_ERR_CONNECTION_RESET
                 then UCXXConnectionResetError else UCXXError)
                (''Endpoint '' @ show_hex X (handle (endpoint s)) @ '' error: ''
                   @ ucs_status_string X (status (callbackData (endpoint s)))))"
    using assms by (simp add: raiseOnError_def Let_def)
  have c: "stream_send b l s =
           (fst (stream_send b l (set_status UCS_OK s)),
            set_status (status (callbackData (endpoint s))) (snd (stream_send b l (set_status UCS_OK s))))"
    using ops_ignore_status(1)[of b l "status (callbackData (endpoint s))" "set_status UCS_OK s"]
    by (simp add: id)
  have d: "stream_recv b l s =
           (fst (stream_recv b l (set_status UCS_OK s)),
            set_status (status (callbackData (endpoint s))) (snd (stream_recv b l (set_status UCS_OK s))))"
    using ops_ignore_status(2)[of b l "status (callbackData (endpoint s))" "set_status UCS_OK s"]
    by (simp add: id)
  have e: "tag_send tm b l t f d s =
           (fst (tag_send tm b l t f d (set_status UCS_OK s)),
            set_status (status (callbackData (endpoint s))) (snd (tag_send tm b l t f d (set_status UCS_OK s))))"
    using ops_ignore_status(3)[of tm b l t f d "status (callbackData (endpoint s))" "set_status UCS_OK s"]
    by (simp add: id)
  have g: "tag_recv tm b l t f d s =
           (fst (tag_recv tm b l t f d (set_status UCS_OK s)),
            set_status (status (callbackData (endpoint s))) (snd (tag_recv tm b l t f d (set_status UCS_OK s))))"
    using ops_ignore_status(4)[of tm b l t f d "status (callbackData (endpoint s))" "set_status UCS_OK s"]
    by (simp add: id)
  have h: "length (delayed (worker (rt (snd (stream_send b l s))))) = Suc (length (delayed (worker (rt s))))"
          "length (delayed (worker (rt (snd (stream_recv b l s))))) = Suc (length (delayed (worker (rt s))))"
    by (simp_all add: stream_ops_queue)
  from a b c d e g h show ?thesis by blast
qed

text \<open>
  The amended claim C1 at an endpoint whose connection was reset.
\<close>

theorem failed_endpoint_raises_ops_proceed_witness:
  "endpoint_error_handling (endpoint (sys0 True UCS_ERR_CONNECTION_RESET))
   \<and> status (callbackData (endpoint (sys0 True UCS_ERR_CONNECTION_RESET))) = UCS_ERR_CONNECTION_RESET
   \<and> raiseOnError X0 (endpoint (sys0 True UCS_ERR_CONNECTION_RESET)) =
       Inl (UCXXConnectionResetError ''Endpoint 0x error: status'')
   \<and> length (delayed (worker (rt (snd (stream_send 64 8 (sys0 True UCS_ERR_CONNECTION_RESET)))))) = 1"
proof -
  have a: "endpoint_error_handling (endpoint (sys0 True UCS_ERR_CONNECTION_RESET))"
    and b: "status (callbackData (endpoint (sys0 True UCS_ERR_CONNECTION_RESET))) = UCS_ERR_CONNECTION_RESET"
    by (simp_all add: sys0_def)
  have c: "status (callbackData (endpoint (sys0 True UCS_ERR_CONNECTION_RESET))) \<noteq> UCS_OK"
    by (simp add: b)
  have q: "delayed (worker (rt (sys0 True UCS_ERR_CONNECTION_RESET))) = []"
          "handle (endpoint (sys0 True UCS_ERR_CONNECTION_RESET)) = Some 7"
    by (simp_all add: sys0_def rt0_def)
  note T = failed_endpoint_raises_ops_proceed[OF a c, of X0 64 8]
  from T have r: "raiseOnError X0 (endpoint (sys0 True UCS_ERR_CONNECTION_RESET)) =
           Inl ((if status (callbackData (endpoint (sys0 True UCS_ERR_CONNECTION_RESET))) = UCS_ERR_CONNECTION_RESET
                 then UCXXConnectionResetError else UCXXError)
                (''Endpoint '' @ show_hex X0 (handle (endpoint (sys0 True UCS_ERR_CONNECTION_RESET))) @ '' error: ''
                   @ ucs_status_string X0 (status (callbackData (endpoint (sys0 True UCS_ERR_CONNECTION_RESET))))))"
    by blast
  from T have n: "length (delayed (worker (rt (snd (stream_send 64 8 (sys0 True UCS_ERR_CONNECTION_RESET))))))
                  = Suc (length (delayed (worker (rt (sys0 True UCS_ERR_CONNECTION_RESET)))))"
    by blast
  from r n a b q show ?thesis by (simp add: X0_def)
qed

text \<open>
  Claim C1 as stated fails: on an endpoint with error handling enabled and status
  \<^verbatim>\<open>UCS_ERR_CONNECTION_RESET\<close>, \<^verbatim>\<open>stream_send\<close> returns a request, registers it, and
  leaves an entry in the worker's queue; when the worker runs the function registered
  with that entry, \<^verbatim>\<open>ucp_stream_send_nbx\<close> is called.
\<close>

theorem stream_send_on_failed_endpoint_counterexample:
  "endpoint_error_handling (endpoint (sys0 True UCS_ERR_CONNECTION_RESET))
   \<and> status (callbackData (endpoint (sys0 True UCS_ERR_CONNECTION_RESET))) = UCS_ERR_CONNECTION_RESET
   \<and> fst (stream_send 64 8 (sys0 True UCS_ERR_CONNECTION_RESET)) = 101
   \<and> map_of (inflightRequests (endpoint (snd (stream_send 64 8 (sys0 True UCS_ERR_CONNECTION_RESET))))) 101
       = Some (Weak 101)
   \<and> delayed (worker (rt (snd (stream_send 64 8 (sys0 True UCS_ERR_CONNECTION_RESET))))) =
       [(populate_delayed_notification_stream_request_fn,
         \<lparr>d_worker = Some 1, d_ep = Some 7, d_send = True, d_buffer = 64, d_length = 8,
          d_request = 100\<rparr>)]
   \<and> filter is_submit
       (trace (populate_delayed_notification_stream_request X0
          \<lparr>d_worker = Some 1, d_ep = Some 7, d_send = True, d_buffer = 64, d_length = 8,
           d_request = 100\<rparr>
          (rt (snd (stream_send 64 8 (sys0 True UCS_ERR_CONNECTION_RESET)))))) =
       [Ucp_stream_send_nbx (Some 7) 64 8
          \<lparr>op_attr_mask = {UCP_OP_ATTR_FIELD_CALLBACK, UCP_OP_ATTR_FIELD_DATATYPE,
                           UCP_OP_ATTR_FIELD_USER_DATA},
           flags = {}, dt_contig = 1, user_data = 100, cb = Cb_send stream_send_callback\<rparr>]"
  by (simp add: sys0_def rt0_def X0_def stream_send_def stream_msg_def createRequest_def
        ucxx_createRequest_def map_insert_def registerDelayedNotificationRequest_def Let_def
        populate_delayed_notification_stream_request_def stream_request_def emit_def
        insert_commute)

text \<open>
  Claim C2. One call of the error callback runs the cancellation of the registry
  exactly once, inside the call: the trace gains one \<open>Cancel_all\<close>, and in the state the
  callback returns every request that was alive is still alive, is \<open>Cancelled\<close> if it was
  in the registry and not terminal, and otherwise keeps the state it had. When the
  registry is in order, so that every request alive and not terminal is in it, every
  request alive after the callback is terminal. The cancellation itself is
  \<open>scheduleRequestCancel\<close>, modelled from the specification.
\<close>

theorem err_cb_cancels_all:
  "length (filter is_cancel_all (trace (rt (err_cb ep st s)))) =
     Suc (length (filter is_cancel_all (trace (rt s))))
   \<and> (\<forall>a q. requests s a = Some q \<longrightarrow>
         (\<exists>q'. requests (err_cb ep st s) a = Some q' \<and>
               req_state q' =
                 (if Weak a \<in> snd ` set (inflightRequests (endpoint s)) \<and> \<not> terminal (req_state q)
                  then Cancelled else req_state q)))
   \<and> (registry_ok s \<longrightarrow>
         (\<forall>a q'. requests (err_cb ep st s) a = Some q' \<longrightarrow> terminal (req_state q')))"
proof -
  let ?s0 = "(set_status st s)\<lparr>rt := emit Cancel_all (rt s)\<rparr>"
  have 1: "length (filter is_cancel_all (trace (rt (err_cb ep st s)))) =
     Suc (length (filter is_cancel_all (trace (rt s))))"
    by (simp add: err_cb_def Let_def scheduleRequestCancel_trace emit_def split: option.splits)
  have 2: "\<exists>q'. requests (err_cb ep st s) a = Some q' \<and>
               req_state q' =
                 (if Weak a \<in> snd ` set (inflightRequests (endpoint s)) \<and> \<not> terminal (req_state q)
                  then Cancelled else req_state q)"
    if rq: "requests s a = Some q" for a q
  proof -
    have "requests ?s0 a = Some q" using rq by (simp add: set_status_def)
    from fold_cancel_entry_requests[OF this, of "inflightRequests (endpoint s)"]
    show ?thesis unfolding err_cb_requests .
  qed
  have 3: "terminal (req_state q')"
    if ok: "registry_ok s" and rq': "requests (err_cb ep st s) a = Some q'" for a q'
  proof (cases "requests s a")
    case None
    then have "requests ?s0 a = None" by (simp add: set_status_def)
    from fold_cancel_entry_requests_none[OF this, of "inflightRequests (endpoint s)"] rq'
    show ?thesis by (simp add: err_cb_requests)
  next
    case (Some q)
    from 2[OF Some] rq' have st: "req_state q' =
                 (if Weak a \<in> snd ` set (inflightRequests (endpoint s)) \<and> \<not> terminal (req_state q)
                  then Cancelled else req_state q)"
      by auto
    show ?thesis
    proof (cases "terminal (req_state q)")
      case True
      with st show ?thesis by simp
    next
      case False
      with ok Some have "map_of (inflightRequests (endpoint s)) a = Some (Weak a)"
        by (simp add: registry_ok_def)
      then have "(a, Weak a) \<in> set (inflightRequests (endpoint s))"
        by (rule map_of_SomeD)
      then have "Weak a \<in> snd ` set (inflightRequests (endpoint s))"
        by force
      with st False show ?thesis by simp
    qed
  qed
  from 1 2 3 show ?thesis by blast
qed

text \<open>
  Claim C2 at an endpoint with a submitted and a completed request.
\<close>

theorem err_cb_cancels_all_witness:
  "registry_ok (sys0 True UCS_OK)
   \<and> (\<exists>q'. requests (err_cb (Some 7) UCS_ERR_CONNECTION_RESET (sys0 True UCS_OK)) 50 = Some q'
         \<and> req_state q' = Cancelled \<and> terminal (req_state q'))
   \<and> (\<exists>q'. requests (err_cb (Some 7) UCS_ERR_CONNECTION_RESET (sys0 True UCS_OK)) 51 = Some q'
         \<and> req_state q' = Completed \<and> terminal (req_state q'))"
proof -
  have a: "requests (sys0 True UCS_OK) 50 = Some \<lparr>req_handle = 40, req_state = Submitted, use_count = 1\<rparr>"
    and b: "requests (sys0 True UCS_OK) 51 = Some \<lparr>req_handle = 41, req_state = Completed, use_count = 1\<rparr>"
    and r: "inflightRequests (endpoint (sys0 True UCS_OK)) = [(50, Weak 50), (51, Weak 51)]"
    by (simp_all add: sys0_def)
  have ok: "registry_ok (sys0 True UCS_OK)"
    by (simp add: registry_ok_def sys0_def rt0_def)
  note T = err_cb_cancels_all[of "Some 7" UCS_ERR_CONNECTION_RESET "sys0 True UCS_OK"]
  note T2 = T[THEN conjunct2, THEN conjunct1, rule_format]
  note T3 = T[THEN conjunct2, THEN conjunct2, rule_format, OF ok]
  from T2[OF a] r obtain q1 where
    q1: "requests (err_cb (Some 7) UCS_ERR_CONNECTION_RESET (sys0 True UCS_OK)) 50 = Some q1"
        "req_state q1 = Cancelled"
    by auto
  from T2[OF b] r obtain q2 where
    q2: "requests (err_cb (Some 7) UCS_ERR_CONNECTION_RESET (sys0 True UCS_OK)) 51 = Some q2"
        "req_state q2 = Completed"
    by auto
  from ok q1 q2 T3[OF q1(1)] T3[OF q2(1)] show ?thesis by simp
qed

text \<open>
  Claim C3, as amended. The claim says that an operation issued from the thread that
  owns the progress loop is submitted at once and that only other threads create a
  queue entry. \<^verbatim>\<open>stream_msg\<close> has no test on the calling thread. What holds: every
  call of \<^verbatim>\<open>stream_msg\<close> hands exactly one entry to the worker's queue and makes no
  transport call; the submission is made when the function registered with the entry,
  \<^verbatim>\<open>populate_delayed_notification_stream_request\<close>, is run on it.
\<close>

theorem stream_msg_always_delayed:
  "delayed (worker (snd (stream_msg ep send buffer len r))) =
     delayed (worker r) @
       [(populate_delayed_notification_stream_request_fn,
         \<lparr>d_worker = w_handle (worker r), d_ep = ep, d_send = send, d_buffer = buffer,
          d_length = len, d_request = fst (stream_msg ep send buffer len r)\<rparr>)]
   \<and> trace (snd (stream_msg ep send buffer len r)) = trace r
   \<and> length (filter is_submit
        (trace (populate_delayed_notification_stream_request X
           \<lparr>d_worker = w_handle (worker r), d_ep = ep, d_send = send, d_buffer = buffer,
            d_length = len, d_request = fst (stream_msg ep send buffer len r)\<rparr>
           (snd (stream_msg ep send buffer len r))))) =
      Suc (length (filter is_submit (trace r)))"
  by (simp add: stream_msg_def registerDelayedNotificationRequest_def Let_def
        populate_delayed_notification_stream_request_def stream_request_def emit_def)

text \<open>
  Claim C3 as stated fails: a call of \<^verbatim>\<open>stream_msg\<close>, whichever thread makes it,
  leaves an entry in the queue and has submitted nothing.
\<close>

theorem stream_msg_counterexample:
  "length (delayed (worker (snd (stream_msg (Some 7) True 64 8 rt0)))) = 1
   \<and> filter is_submit (trace (snd (stream_msg (Some 7) True 64 8 rt0))) = []"
  by (simp add: stream_msg_def registerDelayedNotificationRequest_def Let_def rt0_def)




text \<open>
  Claim C5. \<^verbatim>\<open>createRequest\<close>, and with it each of \<^verbatim>\<open>stream_send\<close>, \<^verbatim>\<open>stream_recv\<close>,
  \<^verbatim>\<open>tag_send\<close> and \<^verbatim>\<open>tag_recv\<close>, enters the request it returns in the registry of the
  endpoint under its own address, as a weak pointer: the request can be locked through
  the entry, the returned shared pointer is its only owner, and once that owner lets go
  the entry locks nothing. Through any sequence of transfer calls, close callback
  settings, error callbacks and releases, every request that is alive and not terminal
  is found in the registry. The condition asked of the starting state, that the registry
  is in order, holds for the endpoint the constructor returns, which has an empty
  registry and no requests. The factory and the cancellation are modelled from the
  specification; \<^verbatim>\<open>tag_msg\<close> is any function that does not move the allocator back.
\<close>

theorem request_registered_weakly:
  assumes "registry_ok s" and "allocates_fresh tm"
  shows "registered (createRequest request s)
       \<and> registered (stream_send b l s) \<and> registered (stream_recv b l s)
       \<and> registered (tag_send tm b l t f d s) \<and> registered (tag_recv tm b l t f d s)
       \<and> registry_ok (fold (step tm) ops s)
       \<and> (\<forall>e tr'. UCXXEndpoint_ctor X c params eeh tr = (Inr e, tr') \<longrightarrow>
             registry_ok \<lparr>rt = r, endpoint = e, requests = (\<lambda>_. None)\<rparr>)"
proof -
  have 5: "\<forall>e tr'. UCXXEndpoint_ctor X c params eeh tr = (Inr e, tr') \<longrightarrow>
             registry_ok \<lparr>rt = r, endpoint = e, requests = (\<lambda>_. None)\<rparr>"
    by (blast intro: registry_ok_ctor)
  from createRequest_registered[OF assms(1)] transfer_registered[OF assms]
       registry_ok_run[OF assms] 5
  show ?thesis by blast
qed

text \<open>
  Claim C5 at an endpoint with two requests.
\<close>

theorem request_registered_weakly_witness:
  "registry_ok (sys0 True UCS_OK) \<and> allocates_fresh tag_msg0
   \<and> fst (stream_recv 64 8 (sys0 True UCS_OK)) = 101
   \<and> map_of (inflightRequests (endpoint (snd (stream_recv 64 8 (sys0 True UCS_OK))))) 101
       = Some (Weak 101)
   \<and> lock (shared_ptr_release 101 (snd (stream_recv 64 8 (sys0 True UCS_OK)))) (Weak 101) = None
   \<and> registry_ok
       (fold (step tag_msg0)
          [Stream_send 64 8, Err_cb (Some 7) UCS_ERR_CONNECTION_RESET, Release 50,
           Tag_recv 64 8 5 None None]
          (sys0 True UCS_OK))"
proof -
  have a: "registry_ok (sys0 True UCS_OK)"
    by (simp add: registry_ok_def sys0_def rt0_def)
  have b: "allocates_fresh tag_msg0"
    by (simp add: allocates_fresh_def tag_msg0_def stream_msg_next_addr)
  have c: "fst (stream_recv 64 8 (sys0 True UCS_OK)) = 101"
    by (simp add: stream_recv_def split_beta createRequest_fst stream_msg_next_addr sys0_def rt0_def)
  note T = request_registered_weakly[OF a b, of _ 64 8 _ _ _
             "[Stream_send 64 8, Err_cb (Some 7) UCS_ERR_CONNECTION_RESET, Release 50,
               Tag_recv 64 8 5 None None]"]
  from T have d: "registered (stream_recv 64 8 (sys0 True UCS_OK))"
    by blast
  from T have e: "registry_ok
       (fold (step tag_msg0)
          [Stream_send 64 8, Err_cb (Some 7) UCS_ERR_CONNECTION_RESET, Release 50,
           Tag_recv 64 8 5 None None]
          (sys0 True UCS_OK))"
    by blast
  from a b c d e show ?thesis by (simp add: registered_def)
qed

text \<open>
  Claim C6. When the worker pointer is null or the worker has no handle,
  \<^verbatim>\<open>createEndpointFromHostname\<close> and \<^verbatim>\<open>createEndpointFromWorkerAddress\<close> throw
  "Worker not initialized" and the trace is as it was: no resolver or transport call has
  been made. With a good worker and an address that is null, has no handle or has length
  zero, \<^verbatim>\<open>createEndpointFromWorkerAddress\<close> throws "Address not initialized", again
  with the trace as it was. \<^verbatim>\<open>createEndpointFromConnRequest\<close> throws in the same way
  for a listener that is null or has no handle, and the constructor when \<^verbatim>\<open>getWorker\<close>
  finds no worker with a handle. The factories return an exception and no endpoint, so nothing
  can have been queued on one.
\<close>

theorem create_endpoint_not_initialized:
  "(\<not> worker_initialized wrk \<longrightarrow>
      createEndpointFromHostname X wrk ip port eeh tr =
        (Inl (UCXXError ''Worker not initialized''), tr)
    \<and> createEndpointFromWorkerAddress X wrk addr eeh tr =
        (Inl (UCXXError ''Worker not initialized''), tr))
   \<and> (worker_initialized wrk \<and> \<not> address_initialized addr \<longrightarrow>
        createEndpointFromWorkerAddress X wrk addr eeh tr =
          (Inl (UCXXError ''Address not initialized''), tr))
   \<and> (\<not> listener_initialized listener \<longrightarrow>
        createEndpointFromConnRequest X listener conn eeh tr =
          (Inl (UCXXError ''Worker not initialized''), tr))
   \<and> (\<not> worker_initialized (getWorker c) \<longrightarrow>
        UCXXEndpoint_ctor X c params eeh tr = (Inl (UCXXError ''Worker not initialized''), tr))"
  by (auto simp: worker_initialized_def address_initialized_def listener_initialized_def
        createEndpointFromHostname_def createEndpointFromWorkerAddress_def
        createEndpointFromConnRequest_def UCXXEndpoint_ctor_def split: option.splits)

text \<open>
  Claim C6 for a null worker, a worker without a handle, an address of length 0 and a
  null listener.
\<close>

theorem create_endpoint_not_initialized_witness:
  "createEndpointFromHostname X0 None ''localhost'' 12345 True [] =
     (Inl (UCXXError ''Worker not initialized''), [])
   \<and> createEndpointFromWorkerAddress X0 None None True [] =
     (Inl (UCXXError ''Worker not initialized''), [])
   \<and> createEndpointFromWorkerAddress X0 (Some \<lparr>w_handle = Some 1, delayed = []\<rparr>)
       (Some \<lparr>a_handle = Some 3, a_length = 0\<rparr>) True [] =
     (Inl (UCXXError ''Address not initialized''), [])
   \<and> createEndpointFromConnRequest X0 None (Some 4) True [] =
     (Inl (UCXXError ''Worker not initialized''), [])
   \<and> UCXXEndpoint_ctor X0 (Worker \<lparr>w_handle = None, delayed = []\<rparr>) new_ucp_ep_params_t True [] =
     (Inl (UCXXError ''Worker not initialized''), [])"
proof -
  have a: "\<not> worker_initialized None"
    and l: "\<not> listener_initialized None"
    and b: "worker_initialized (Some \<lparr>w_handle = Some 1, delayed = []\<rparr>)"
    and c: "\<not> address_initialized (Some \<lparr>a_handle = Some 3, a_length = 0\<rparr>)"
    and d: "\<not> worker_initialized (getWorker (Worker \<lparr>w_handle = None, delayed = []\<rparr>))"
    by (simp_all add: worker_initialized_def address_initialized_def listener_initialized_def
          getWorker_def)
  from create_endpoint_not_initialized[of None X0 "''localhost''" 12345 True "[]" None None
         "Some 4" "Worker \<lparr>w_handle = None, delayed = []\<rparr>" new_ucp_ep_params_t] a d l
  have 1: "createEndpointFromHostname X0 None ''localhost'' 12345 True [] =
             (Inl (UCXXError ''Worker not initialized''), [])"
    and 2: "createEndpointFromWorkerAddress X0 None None True [] =
             (Inl (UCXXError ''Worker not initialized''), [])"
    and 4: "UCXXEndpoint_ctor X0 (Worker \<lparr>w_handle = None, delayed = []\<rparr>) new_ucp_ep_params_t True [] =
             (Inl (UCXXError ''Worker not initialized''), [])"
    and 5: "createEndpointFromConnRequest X0 None (Some 4) True [] =
             (Inl (UCXXError ''Worker not initialized''), [])"
    by blast+
  from create_endpoint_not_initialized[of "Some \<lparr>w_handle = Some 1, delayed = []\<rparr>" X0
         "''localhost''" 12345 True "[]" "Some \<lparr>a_handle = Some 3, a_length = 0\<rparr>"] b c
  have 3: "createEndpointFromWorkerAddress X0 (Some \<lparr>w_handle = Some 1, delayed = []\<rparr>)
       (Some \<lparr>a_handle = Some 3, a_length = 0\<rparr>) True [] =
     (Inl (UCXXError ''Address not initialized''), [])"
    by blast
  from 1 2 3 4 5 show ?thesis by blast
qed

text \<open>
  Claim C7. Every call of the error callback logs the connection error once, at debug
  level when the status is \<^verbatim>\<open>UCS_ERR_CONNECTION_RESET\<close> or \<^verbatim>\<open>UCS_ERR_ENDPOINT_TIMEOUT\<close>
  and at error level for every other status.
\<close>

theorem err_cb_log_severity:
  "filter is_err_cb_log (trace (rt (err_cb ep st s))) =
     filter is_err_cb_log (trace (rt s)) @
       [Log (if st = UCS_ERR_CONNECTION_RESET \<or> st = UCS_ERR_ENDPOINT_TIMEOUT
             then LOG_DEBUG else LOG_ERROR) (Err_cb_msg ep st)]"
  by (simp add: err_cb_def Let_def scheduleRequestCancel_trace emit_def split: option.splits)

text \<open>
  Claim C8. On an endpoint constructed with error handling disabled \<^verbatim>\<open>isAlive()\<close>
  is true and \<^verbatim>\<open>raiseOnError()\<close> does not throw, also after the error callback has
  recorded any status.
\<close>

theorem no_error_handling_always_alive:
  assumes "\<not> endpoint_error_handling (endpoint s)"
  shows "isAlive (endpoint s) \<and> raiseOnError X (endpoint s) = Inr ()
       \<and> status (callbackData (endpoint (err_cb ep st s))) = st
       \<and> isAlive (endpoint (err_cb ep st s))
       \<and> raiseOnError X (endpoint (err_cb ep st s)) = Inr ()"
  using assms by (simp add: isAlive_def raiseOnError_def err_cb_endpoint)

text \<open>
  Claim C8 after a connection reset.
\<close>

theorem no_error_handling_always_alive_witness:
  "\<not> endpoint_error_handling (endpoint (sys0 False UCS_OK))
   \<and> status (callbackData (endpoint (err_cb (Some 7) UCS_ERR_CONNECTION_RESET (sys0 False UCS_OK))))
       = UCS_ERR_CONNECTION_RESET
   \<and> isAlive (endpoint (err_cb (Some 7) UCS_ERR_CONNECTION_RESET (sys0 False UCS_OK)))
   \<and> raiseOnError X0 (endpoint (err_cb (Some 7) UCS_ERR_CONNECTION_RESET (sys0 False UCS_OK)))
       = Inr ()"
proof -
  have h: "\<not> endpoint_error_handling (endpoint (sys0 False UCS_OK))"
    by (simp add: sys0_def)
  from no_error_handling_always_alive[OF h, of X0 "Some 7" UCS_ERR_CONNECTION_RESET] h
  show ?thesis by blast
qed

text \<open>
  Claim C9. The first call of the error callback that finds a close callback set
  invokes it once, with its argument, and clears both; however many calls of the error
  callback follow, the close callback is not invoked again.
\<close>

theorem close_callback_at_most_once:
  assumes "closeCallback (callbackData (endpoint s)) = Some f"
  shows "filter is_close_callback (trace (rt (err_cb ep st s))) =
           filter is_close_callback (trace (rt s)) @
             [Close_callback f (closeCallbackArg (callbackData (endpoint s)))]
       \<and> closeCallback (callbackData (endpoint (err_cb ep st s))) = None
       \<and> closeCallbackArg (callbackData (endpoint (err_cb ep st s))) = None
       \<and> filter is_close_callback
           (trace (rt (fold (\<lambda>c. err_cb (fst c) (snd c)) calls (err_cb ep st s)))) =
           filter is_close_callback (trace (rt (err_cb ep st s)))"
  using assms
  by (simp add: err_cb_close_events err_cb_endpoint(4) err_cb_clears_arg fold_err_cb_no_close)

text \<open>
  Claim C9 for three calls of the error callback in a row.
\<close>

theorem close_callback_at_most_once_witness:
  "closeCallback (callbackData (endpoint (sys0 True UCS_OK))) = Some 5
   \<and> filter is_close_callback
       (trace (rt (fold (\<lambda>c. err_cb (fst c) (snd c))
                    [(Some 7, UCS_ERR_ENDPOINT_TIMEOUT), (Some 7, UCS_ERR_CONNECTION_RESET)]
                    (err_cb (Some 7) UCS_ERR_CONNECTION_RESET (sys0 True UCS_OK)))))
       = [Close_callback 5 (Some 6)]"
proof -
  have h: "closeCallback (callbackData (endpoint (sys0 True UCS_OK))) = Some 5"
    by (simp add: sys0_def)
  have e: "filter is_close_callback (trace (rt (sys0 True UCS_OK))) = []"
          "closeCallbackArg (callbackData (endpoint (sys0 True UCS_OK))) = Some 6"
    by (simp_all add: sys0_def rt0_def)
  note T = close_callback_at_most_once[OF h, of "Some 7" UCS_ERR_CONNECTION_RESET
             "[(Some 7, UCS_ERR_ENDPOINT_TIMEOUT), (Some 7, UCS_ERR_CONNECTION_RESET)]"]
  from T have 1: "filter is_close_callback
           (trace (rt (err_cb (Some 7) UCS_ERR_CONNECTION_RESET (sys0 True UCS_OK)))) =
         filter is_close_callback (trace (rt (sys0 True UCS_OK))) @
           [Close_callback 5 (closeCallbackArg (callbackData (endpoint (sys0 True UCS_OK))))]"
    by blast
  from T have 2: "filter is_close_callback
       (trace (rt (fold (\<lambda>c. err_cb (fst c) (snd c))
                    [(Some 7, UCS_ERR_ENDPOINT_TIMEOUT), (Some 7, UCS_ERR_CONNECTION_RESET)]
                    (err_cb (Some 7) UCS_ERR_CONNECTION_RESET (sys0 True UCS_OK))))) =
       filter is_close_callback
           (trace (rt (err_cb (Some 7) UCS_ERR_CONNECTION_RESET (sys0 True UCS_OK))))"
    by blast
  from h e 1 2 show ?thesis by simp
qed

text \<open>
  Claim C10. A stream receive is handed to the transport with the flags member
  announced in the mask and set to \<^verbatim>\<open>UCP_STREAM_RECV_FLAG_WAITALL\<close>; a stream send, a
  tag send and a tag receive are handed over with no flag and with the flags member not
  announced. That the transport then completes the receive only with the full length is
  what the flag means to the transport.
\<close>

theorem waitall_only_on_stream_recv:
  "(\<exists>p. trace (snd (stream_request X ep False buffer len request r)) =
          trace r @ [Ucp_stream_recv_nbx ep buffer len p]
        \<and> UCP_OP_ATTR_FIELD_FLAGS \<in> op_attr_mask p \<and> UCP_STREAM_RECV_FLAG_WAITALL \<in> flags p)
   \<and> (\<exists>p. trace (snd (stream_request X ep True buffer len request r)) =
          trace r @ [Ucp_stream_send_nbx ep buffer len p]
        \<and> UCP_OP_ATTR_FIELD_FLAGS \<notin> op_attr_mask p \<and> flags p = {})
   \<and> (\<exists>p. trace (snd (UCXXRequestTag_request X wrk ep True buffer len tag request r)) =
          trace r @ [Ucp_tag_send_nbx ep buffer len tag p]
        \<and> UCP_OP_ATTR_FIELD_FLAGS \<notin> op_attr_mask p \<and> flags p = {})
   \<and> (\<exists>p. trace (snd (UCXXRequestTag_request X wrk ep False buffer len tag request r)) =
          trace r @ [Ucp_tag_recv_nbx wrk buffer len tag (- 1) p]
        \<and> UCP_OP_ATTR_FIELD_FLAGS \<notin> op_attr_mask p \<and> flags p = {})"
  by (simp add: stream_request_def UCXXRequestTag_request_def Let_def emit_def)

end
